theory Spec2Isabelle
  imports Main "HOL-Library.Word"
begin

section \<open>JavaScript strings and values\<close>

text \<open>
  A JavaScript string is a sequence of UTF-16 code units. The literals of the source
  that are plain ASCII are written with \<open>js\<close>; the two labels in Devanagari and
  Telugu script are written out as code units.
\<close>

type_synonym jsstring = "16 word list"

definition js :: "string \<Rightarrow> jsstring" where
  "js s = map (\<lambda>c. word_of_nat (of_char c)) s"

text \<open>
  The code units that \<open>String.prototype.trim\<close> strips: the WhiteSpace and
  LineTerminator productions of ECMAScript (tab, line feed, vertical tab, form feed,
  carriage return, space, no-break space, the Unicode space separators, the line and
  paragraph separators and the byte order mark).
\<close>

definition isWhiteSpace :: "16 word \<Rightarrow> bool" where
  "isWhiteSpace c \<longleftrightarrow>
     c \<in> set [0x0009, 0x000A, 0x000B, 0x000C, 0x000D, 0x0020, 0x00A0, 0x1680,
              0x2000, 0x2001, 0x2002, 0x2003, 0x2004, 0x2005, 0x2006, 0x2007,
              0x2008, 0x2009, 0x200A, 0x2028, 0x2029, 0x202F, 0x205F, 0x3000, 0xFEFF]"

definition trim :: "jsstring \<Rightarrow> jsstring" where
  "trim s = rev (dropWhile isWhiteSpace (rev (dropWhile isWhiteSpace s)))"

text \<open>\<open>s.includes(p)\<close>: \<open>p\<close> occurs in \<open>s\<close> as a contiguous run.\<close>

fun includes_str :: "jsstring \<Rightarrow> jsstring \<Rightarrow> bool" where
  "includes_str [] p = (p = [])"
| "includes_str (c # cs) p = (take (length p) (c # cs) = p \<or> includes_str cs p)"

text \<open>
  \<open>s.split(sep)\<close> for a separator of one code unit and no limit: the segments between
  successive separators, in order. The empty string gives one empty segment.
\<close>

fun split_from :: "16 word \<Rightarrow> jsstring \<Rightarrow> jsstring \<Rightarrow> jsstring list" where
  "split_from sep seg [] = [rev seg]"
| "split_from sep seg (c # cs) =
     (if c = sep then rev seg # split_from sep [] cs else split_from sep (c # seg) cs)"

definition split :: "jsstring \<Rightarrow> 16 word \<Rightarrow> jsstring list" where
  "split s sep = split_from sep [] s"

definition comma :: "16 word" where
  "comma = 0x002C"

text \<open>
  The values that a field of a server reply, a component property or a piece of form
  state takes in these components: a string, or one of the two missing values.
\<close>

datatype jsval = Undefined | Null | Str jsstring

fun truthy :: "jsval \<Rightarrow> bool" where
  "truthy Undefined = False"
| "truthy Null = False"
| "truthy (Str s) = (s \<noteq> [])"

text \<open>\<open>a || b\<close> on such values.\<close>

definition or_else :: "jsval \<Rightarrow> jsval \<Rightarrow> jsval" where
  "or_else a b = (if truthy a then a else b)"

text \<open>The string a template literal interpolates for a value.\<close>

fun toString :: "jsval \<Rightarrow> jsstring" where
  "toString Undefined = js ''undefined''"
| "toString Null = js ''null''"
| "toString (Str s) = s"

subsection \<open>Reading a property of an object literal\<close>

text \<open>
  An object literal \<open>{k: v, ...}\<close> with string values has the listed own properties
  and inherits from \<open>Object.prototype\<close>. The read \<open>obj[key]\<close> finds an own property
  first and then walks the prototype chain, so a key that names a member of
  \<open>Object.prototype\<close> yields that built-in object (a function, or the prototype itself
  for \<open>__proto__\<close>), and any other key yields \<open>undefined\<close>.
\<close>

datatype property_value = Missing | Text jsstring | Builtin jsstring

definition object_prototype_names :: "jsstring list" where
  "object_prototype_names = map js
     [''constructor'', ''hasOwnProperty'', ''isPrototypeOf'', ''propertyIsEnumerable'',
      ''toLocaleString'', ''toString'', ''valueOf'', ''__proto__'',
      ''__defineGetter__'', ''__defineSetter__'', ''__lookupGetter__'', ''__lookupSetter__'']"

definition get_property :: "(jsstring \<times> jsstring) list \<Rightarrow> jsstring \<Rightarrow> property_value" where
  "get_property obj key =
     (case map_of obj key of
        Some v \<Rightarrow> Text v
      | None \<Rightarrow> if key \<in> set object_prototype_names then Builtin key else Missing)"

fun truthy_property :: "property_value \<Rightarrow> bool" where
  "truthy_property Missing = False"
| "truthy_property (Text s) = (s \<noteq> [])"
| "truthy_property (Builtin n) = True"

definition or_default :: "property_value \<Rightarrow> property_value \<Rightarrow> property_value" where
  "or_default a b = (if truthy_property a then a else b)"

section \<open>utils/helpers\<close>

definition category_styles :: "(jsstring \<times> jsstring) list" where
  "category_styles =
     [(js ''fir'', js ''category-fir''),
      (js ''rti'', js ''category-rti''),
      (js ''consumer'', js ''category-consumer''),
      (js ''labour'', js ''category-labour''),
      (js ''family'', js ''category-family''),
      (js ''property'', js ''category-property''),
      (js ''general'', js ''category-general'')]"

definition getCategoryStyle :: "jsstring \<Rightarrow> property_value" where
  "getCategoryStyle category =
     or_default (get_property category_styles category)
                (get_property category_styles (js ''general''))"

definition category_labels :: "(jsstring \<times> jsstring) list" where
  "category_labels =
     [(js ''fir'', js ''FIR / Police''),
      (js ''rti'', js ''RTI''),
      (js ''consumer'', js ''Consumer''),
      (js ''labour'', js ''Labour''),
      (js ''family'', js ''Family''),
      (js ''property'', js ''Property''),
      (js ''general'', js ''General'')]"

definition getCategoryLabel :: "jsstring \<Rightarrow> property_value" where
  "getCategoryLabel category =
     or_default (get_property category_labels category) (Text category)"

definition status_styles :: "(jsstring \<times> jsstring) list" where
  "status_styles =
     [(js ''open'', js ''status-open''),
      (js ''assigned'', js ''status-assigned''),
      (js ''closed'', js ''status-closed'')]"

definition getStatusStyle :: "jsstring \<Rightarrow> property_value" where
  "getStatusStyle status =
     or_default (get_property status_styles status)
                (get_property status_styles (js ''open''))"

definition language_labels :: "(jsstring \<times> jsstring) list" where
  "language_labels =
     [(js ''en'', js ''English''),
      (js ''hi'', [0x0939, 0x093F, 0x0902, 0x0926, 0x0940]),
      (js ''te'', [0x0C24, 0x0C46, 0x0C32, 0x0C41, 0x0C17, 0x0C41])]"

definition getLanguageLabel :: "jsstring \<Rightarrow> property_value" where
  "getLanguageLabel code =
     or_default (get_property language_labels code) (Text code)"

subsection \<open>The host's dates\<close>

text \<open>
  \<open>formatDate\<close> calls \<open>new Date(dateString)\<close> and then
  \<open>date.toLocaleDateString('en-IN', {day: '2-digit', month: 'short', year: 'numeric'})\<close>.

  \<open>new Date(v)\<close> never throws on a string, on null or on undefined. For a string
  the time value is what \<open>Date.parse\<close> reads from it, in milliseconds, or NaN
  (\<open>None\<close>); which strings the host can read beyond the standard format is its own
  choice, so \<open>parse\<close> is a parameter.
\<close>

fun newDate :: "(jsstring \<Rightarrow> int option) \<Rightarrow> jsval \<Rightarrow> int option" where
  "newDate parse Undefined = None"
| "newDate parse Null = Some 0"
| "newDate parse (Str s) = parse s"

text \<open>
  \<open>toLocaleDateString(locales, options)\<close> first returns \<open>Invalid Date\<close> for a date
  whose time value is NaN. Otherwise it constructs an \<open>Intl.DateTimeFormat\<close>, which
  throws a RangeError when the language tag is not structurally valid or when an
  option has a value outside its list, and then renders the time value. The
  rendering depends on the locale data and the time zone of the host and is a
  parameter.

  A language tag is structurally valid when it is a language subtag, followed by
  an optional script, an optional region and variants (none twice), then by
  extensions (each singleton once) and an optional private-use part, all separated
  by hyphens and compared without regard to case.
\<close>

datatype js_error = RangeError

definition isAlpha :: "16 word \<Rightarrow> bool" where
  "isAlpha c \<longleftrightarrow> (0x41 \<le> c \<and> c \<le> 0x5A) \<or> (0x61 \<le> c \<and> c \<le> 0x7A)"

definition isDigit :: "16 word \<Rightarrow> bool" where
  "isDigit c \<longleftrightarrow> 0x30 \<le> c \<and> c \<le> 0x39"

definition isAlphanum :: "16 word \<Rightarrow> bool" where
  "isAlphanum c \<longleftrightarrow> isAlpha c \<or> isDigit c"

definition toLower :: "16 word \<Rightarrow> 16 word" where
  "toLower c = (if 0x41 \<le> c \<and> c \<le> 0x5A then c + 0x20 else c)"

definition alpha :: "nat \<Rightarrow> nat \<Rightarrow> jsstring \<Rightarrow> bool" where
  "alpha lo hi s \<longleftrightarrow> lo \<le> length s \<and> length s \<le> hi \<and> list_all isAlpha s"

definition alphanum :: "nat \<Rightarrow> nat \<Rightarrow> jsstring \<Rightarrow> bool" where
  "alphanum lo hi s \<longleftrightarrow> lo \<le> length s \<and> length s \<le> hi \<and> list_all isAlphanum s"

definition is_language_subtag :: "jsstring \<Rightarrow> bool" where
  "is_language_subtag s \<longleftrightarrow> alpha 2 3 s \<or> alpha 5 8 s"

definition is_script_subtag :: "jsstring \<Rightarrow> bool" where
  "is_script_subtag s \<longleftrightarrow> alpha 4 4 s"

definition is_region_subtag :: "jsstring \<Rightarrow> bool" where
  "is_region_subtag s \<longleftrightarrow> alpha 2 2 s \<or> (length s = 3 \<and> list_all isDigit s)"

definition is_variant_subtag :: "jsstring \<Rightarrow> bool" where
  "is_variant_subtag s \<longleftrightarrow>
     alphanum 5 8 s \<or> (case s of [] \<Rightarrow> False | c # r \<Rightarrow> isDigit c \<and> alphanum 3 3 r)"

definition skip_optional :: "(jsstring \<Rightarrow> bool) \<Rightarrow> jsstring list \<Rightarrow> jsstring list" where
  "skip_optional P subtags =
     (case subtags of [] \<Rightarrow> [] | s # r \<Rightarrow> if P s then r else subtags)"

text \<open>The subtags that follow the language, script, region and variants.\<close>

definition after_language_id :: "jsstring list \<Rightarrow> jsstring list option" where
  "after_language_id subtags =
     (case subtags of
        [] \<Rightarrow> None
      | l # r \<Rightarrow>
          if \<not> is_language_subtag l then None
          else
            let r2 = skip_optional is_region_subtag (skip_optional is_script_subtag r) in
            if distinct (map (map toLower) (takeWhile is_variant_subtag r2))
            then Some (dropWhile is_variant_subtag r2) else None)"

text \<open>
  The extensions, each a singleton with the subtags up to the next singleton; the
  first component holds subtags that no singleton precedes.
\<close>

fun extension_groups :: "jsstring list \<Rightarrow> jsstring list \<times> jsstring list list" where
  "extension_groups [] = ([], [])"
| "extension_groups (s # r) =
     (case extension_groups r of
        (body, groups) \<Rightarrow>
          if length s = 1 then ([], (s # body) # groups) else (s # body, groups))"

definition is_key :: "jsstring \<Rightarrow> bool" where
  "is_key s \<longleftrightarrow> (case s of [a, b] \<Rightarrow> isAlphanum a \<and> isAlpha b | _ \<Rightarrow> False)"

definition is_tkey :: "jsstring \<Rightarrow> bool" where
  "is_tkey s \<longleftrightarrow> (case s of [a, b] \<Rightarrow> isAlpha a \<and> isDigit b | _ \<Rightarrow> False)"

text \<open>
  Fields of a transformed extension: a key and at least one value, repeated. The
  state is 0 at the start, 1 after a key and 2 after a value.
\<close>

fun tfields :: "nat \<Rightarrow> jsstring list \<Rightarrow> bool" where
  "tfields st [] = (st = 2)"
| "tfields st (s # r) =
     (if is_tkey s then st \<noteq> 1 \<and> tfields 1 r
      else if alphanum 3 8 s then st \<noteq> 0 \<and> tfields 2 r
      else False)"

definition transformed_ok :: "jsstring list \<Rightarrow> bool" where
  "transformed_ok body =
     (case body of
        [] \<Rightarrow> False
      | b # r \<Rightarrow>
          if is_language_subtag b then
            (case after_language_id body of
               None \<Rightarrow> False
             | Some rest \<Rightarrow> rest = [] \<or> tfields 0 rest)
          else tfields 0 body)"

definition extension_ok :: "jsstring list \<Rightarrow> bool" where
  "extension_ok grp =
     (case grp of
        [] \<Rightarrow> False
      | s # body \<Rightarrow>
          alphanum 1 1 s \<and> body \<noteq> [] \<and>
          (if map toLower s = js ''u'' then list_all (\<lambda>t. alphanum 3 8 t \<or> is_key t) body
           else if map toLower s = js ''t'' then transformed_ok body
           else list_all (alphanum 2 8) body))"

definition private_use_ok :: "jsstring list \<Rightarrow> bool" where
  "private_use_ok pu =
     (case pu of [] \<Rightarrow> True | x # body \<Rightarrow> body \<noteq> [] \<and> list_all (alphanum 1 8) body)"

definition isStructurallyValidLanguageTag :: "jsstring \<Rightarrow> bool" where
  "isStructurallyValidLanguageTag tag =
     (case after_language_id (split tag 0x002D) of
        None \<Rightarrow> False
      | Some rest \<Rightarrow>
          (case extension_groups (takeWhile (\<lambda>s. map toLower s \<noteq> js ''x'') rest) of
             (body, groups) \<Rightarrow>
               body = [] \<and> list_all extension_ok groups
               \<and> distinct (map (\<lambda>g. map toLower (hd g)) groups)
               \<and> private_use_ok (dropWhile (\<lambda>s. map toLower s \<noteq> js ''x'') rest)))"

text \<open>
  The options that \<open>formatDate\<close> passes. An option that is undefined takes its
  default; any other value is converted to a string and must be in the list of the
  option.
\<close>

record date_options =
  day :: jsval
  month :: jsval
  year :: jsval

definition getOption_ok :: "jsstring list \<Rightarrow> jsval \<Rightarrow> bool" where
  "getOption_ok allowed v \<longleftrightarrow> v = Undefined \<or> toString v \<in> set allowed"

definition options_ok :: "date_options \<Rightarrow> bool" where
  "options_ok options \<longleftrightarrow>
     getOption_ok (map js [''numeric'', ''2-digit'']) (year options)
     \<and> getOption_ok (map js [''numeric'', ''2-digit'', ''long'', ''short'', ''narrow''])
          (month options)
     \<and> getOption_ok (map js [''numeric'', ''2-digit'']) (day options)"

definition toLocaleDateString ::
  "(jsstring \<Rightarrow> date_options \<Rightarrow> int \<Rightarrow> jsstring) \<Rightarrow> int option \<Rightarrow> jsstring \<Rightarrow> date_options
     \<Rightarrow> js_error + jsstring" where
  "toLocaleDateString render date locales options =
     (case date of
        None \<Rightarrow> Inr (js ''Invalid Date'')
      | Some t \<Rightarrow>
          if \<not> isStructurallyValidLanguageTag locales \<or> \<not> options_ok options
          then Inl RangeError
          else Inr (render locales options t))"

text \<open>\<open>formatDate\<close>: the text it returns, or the error it throws.\<close>

definition formatDate ::
  "(jsstring \<Rightarrow> int option) \<Rightarrow> (jsstring \<Rightarrow> date_options \<Rightarrow> int \<Rightarrow> jsstring) \<Rightarrow> jsval
     \<Rightarrow> js_error + jsstring" where
  "formatDate parse render dateString =
     (if \<not> truthy dateString then Inr []
      else
        let date = newDate parse dateString in
        toLocaleDateString render date (js ''en-IN'')
          \<lparr>day = Str (js ''2-digit''), month = Str (js ''short''), year = Str (js ''numeric'')\<rparr>)"

section \<open>Requests and other effects of the page handlers\<close>

text \<open>
  A handler is a function from the component state it closes over, and from the
  outcome of each request it awaits, to the new state and the effects it had, in
  order. \<open>BACKEND_URL\<close> comes from the build environment and is a parameter.
\<close>

datatype 'a promise = Rejected | Resolved 'a

record student_form =
  name :: jsstring
  email :: jsstring
  college :: jsstring
  skills :: jsstring

record fir_details =
  name :: jsstring
  age :: jsstring
  address :: jsstring
  mobile :: jsstring
  email :: jsstring
  incident_date :: jsstring
  incident_time :: jsstring
  incident_place :: jsstring
  incident_description :: jsstring
  accused_details :: jsstring
  witness_details :: jsstring
  evidence_list :: jsstring

record rti_details =
  name :: jsstring
  address :: jsstring
  mobile :: jsstring
  email :: jsstring
  department_name :: jsstring
  department_address :: jsstring
  question_1 :: jsstring
  question_2 :: jsstring
  question_3 :: jsstring
  period :: jsstring
  fee :: jsstring
  payment_mode :: jsstring

datatype details = Fir fir_details | Rti rti_details

fun details_name :: "details \<Rightarrow> jsstring" where
  "details_name (Fir d) = fir_details.name d"
| "details_name (Rti d) = rti_details.name d"

fun details_address :: "details \<Rightarrow> jsstring" where
  "details_address (Fir d) = fir_details.address d"
| "details_address (Rti d) = rti_details.address d"

text \<open>
  Request bodies: \<open>{...newStudent, skills}\<close>, \<open>{query_text, language}\<close>,
  \<open>{doc_type, language, details: {...details, current_date, place}}\<close> and
  \<open>{text, language}\<close>.
\<close>

datatype body =
    StudentBody jsstring jsstring jsstring "jsstring list"
  | QueryBody jsstring jsstring
  | DocumentBody jsstring jsstring details jsval jsval
  | SpeechBody jsval jsval

datatype effect =
    ToastError jsstring
  | ToastSuccess jsstring
  | ConsoleError jsstring
  | Post jsstring body
  | Get jsstring
  | Navigate jsstring
  | CreateObjectURL jsstring "8 word list"
  | AudioPause jsstring
  | AudioPlay jsstring

fun is_request :: "effect \<Rightarrow> bool" where
  "is_request (Post url b) = True"
| "is_request (Get url) = True"
| "is_request e = False"

fun is_post_to :: "jsstring \<Rightarrow> effect \<Rightarrow> bool" where
  "is_post_to url (Post u b) = (u = url)"
| "is_post_to url e = False"

definition API :: "jsstring \<Rightarrow> jsstring" where
  "API backend = backend @ js ''/api''"

text \<open>
  \<open>URL.createObjectURL(blob)\<close> registers the blob with the browser and returns a
  URL of the \<open>blob:\<close> scheme; the rest of the URL (origin and a fresh identifier) is
  the browser's choice.
\<close>

definition createObjectURL :: "jsstring \<Rightarrow> jsstring" where
  "createObjectURL ident = js ''blob:'' @ ident"

definition is_blob_url :: "jsstring \<Rightarrow> bool" where
  "is_blob_url url \<longleftrightarrow> take 5 url = js ''blob:''"

text \<open>\<open>xs[0]\<close> on an array of strings.\<close>

fun index0 :: "jsstring list \<Rightarrow> jsval" where
  "index0 [] = Undefined"
| "index0 (x # xs) = Str x"

section \<open>pages/StudentPortal\<close>

text \<open>
  The state variables that \<open>handleAddStudent\<close> and \<open>fetchData\<close> read or write; the
  case dialog and the case form are separate state variables that they leave alone.
  \<open>'d\<close> is the type of the lists the server sends.
\<close>

record 'd student_portal =
  students :: 'd
  cases :: 'd
  loading :: bool
  studentDialogOpen :: bool
  newStudent :: student_form

definition fetchData ::
  "jsstring \<Rightarrow> 'd student_portal \<Rightarrow> ('d \<times> 'd) promise \<Rightarrow> 'd student_portal \<times> effect list" where
  "fetchData backend st reply =
     (let gets = [Get (API backend @ js ''/students''), Get (API backend @ js ''/cases'')] in
      case reply of
        Resolved (studentsRes, casesRes) \<Rightarrow>
          (st\<lparr>students := studentsRes, cases := casesRes, loading := False\<rparr>, gets)
      | Rejected \<Rightarrow>
          (st\<lparr>loading := False\<rparr>,
           gets @ [ConsoleError (js ''Error fetching data:''),
                   ToastError (js ''Failed to load data'')]))"

text \<open>
  \<open>newStudent.skills.split(',').map(s => s.trim()).filter(Boolean)\<close>: the filter
  keeps the strings that are truthy.
\<close>

definition skillsArray :: "jsstring \<Rightarrow> jsstring list" where
  "skillsArray input = filter (\<lambda>s. truthy (Str s)) (map trim (split input comma))"

text \<open>
  \<open>handleAddStudent\<close>, from the form state it closes over, the outcome of its POST
  and the outcome of the reload that \<open>fetchData\<close> starts after a successful POST.
  \<open>e.preventDefault()\<close> and the error object passed to \<open>console.error\<close> have no
  part in what follows and are left out, here and in the other handlers.
\<close>

definition handleAddStudent ::
  "jsstring \<Rightarrow> 'd student_portal \<Rightarrow> unit promise \<Rightarrow> ('d \<times> 'd) promise
     \<Rightarrow> 'd student_portal \<times> effect list" where
  "handleAddStudent backend st reply fetched =
     (let form = newStudent st in
      if \<not> truthy (Str (trim (student_form.name form))) then
        (st, [ToastError (js ''Please enter student name'')])
      else if \<not> truthy (Str (trim (student_form.email form))) then
        (st, [ToastError (js ''Please enter email address'')])
      else if \<not> includes_str (student_form.email form) (js ''@'') then
        (st, [ToastError (js ''Please enter a valid email address'')])
      else if \<not> truthy (Str (trim (college form))) then
        (st, [ToastError (js ''Please enter college name'')])
      else
        let post = Post (API backend @ js ''/students'')
                     (StudentBody (student_form.name form) (student_form.email form)
                        (college form) (skillsArray (skills form)))
        in case reply of
             Rejected \<Rightarrow>
               (st, [post, ConsoleError (js ''Error adding student:''),
                     ToastError (js ''Failed to add student. Please try again.'')])
           | Resolved u \<Rightarrow>
               (let st1 = st\<lparr>studentDialogOpen := False,
                            newStudent := \<lparr>student_form.name = [], student_form.email = [],
                                           college = [], skills = []\<rparr>\<rparr>;
                    (st2, effs) = fetchData backend st1 fetched
                in (st2, [post, ToastSuccess (js ''Student added successfully!'')] @ effs)))"

section \<open>pages/QueryPage\<close>

record voice_response =
  query_text :: jsstring
  language :: jsval
  answer :: jsval

record query_page =
  queryText :: jsstring
  language :: jsstring
  isSubmitting :: bool
  voiceResponse :: "voice_response option"
  isPlayingTTS :: bool
  useVoice :: bool

definition initial_query_page :: query_page where
  "initial_query_page =
     \<lparr>queryText = [], query_page.language = js ''en'', isSubmitting = False,
      voiceResponse = None, isPlayingTTS = False, useVoice = False\<rparr>"

text \<open>
  What the reply to \<open>POST /api/queries\<close> carries: \<open>NoData\<close> when \<open>response.data\<close> is
  null or undefined, so that reading \<open>response.data.id\<close> throws; otherwise \<open>Data v\<close>
  with \<open>v\<close> the value of \<open>response.data.id\<close>.
\<close>

datatype query_reply = NoData | Data jsval

text \<open>
  \<open>handleSubmit\<close> up to its \<open>await\<close>: the check of the text, \<open>setIsSubmitting(true)\<close>
  and the request.
\<close>

definition handleSubmit_begin :: "jsstring \<Rightarrow> query_page \<Rightarrow> query_page \<times> effect list" where
  "handleSubmit_begin backend st =
     (if \<not> truthy (Str (trim (queryText st))) then
        (st, [ToastError (js ''Please enter your legal query'')])
      else
        (st\<lparr>isSubmitting := True\<rparr>,
         [Post (API backend @ js ''/queries'') (QueryBody (queryText st) (query_page.language st))]))"

text \<open>\<open>handleSubmit\<close> from the point where the awaited request settles.\<close>

definition handleSubmit_settle :: "query_page \<Rightarrow> query_reply promise \<Rightarrow> query_page \<times> effect list" where
  "handleSubmit_settle st reply =
     (st\<lparr>isSubmitting := False\<rparr>,
      case reply of
        Resolved (Data ident) \<Rightarrow>
          [ToastSuccess (js ''Query processed successfully!''),
           Navigate (js ''/response/'' @ toString ident)]
      | Resolved NoData \<Rightarrow>
          [ToastSuccess (js ''Query processed successfully!''),
           ConsoleError (js ''Error submitting query:''),
           ToastError (js ''Failed to process query. Please try again.'')]
      | Rejected \<Rightarrow>
          [ConsoleError (js ''Error submitting query:''),
           ToastError (js ''Failed to process query. Please try again.'')])"

definition handleSubmit ::
  "jsstring \<Rightarrow> query_page \<Rightarrow> query_reply promise \<Rightarrow> query_page \<times> effect list" where
  "handleSubmit backend st reply =
     (let (st1, effs1) = handleSubmit_begin backend st in
      if list_ex is_request effs1 then
        let (st2, effs2) = handleSubmit_settle st1 reply in (st2, effs1 @ effs2)
      else (st1, effs1))"

text \<open>The \<open>disabled\<close> attribute of the submit button.\<close>

definition submit_disabled :: "query_page \<Rightarrow> bool" where
  "submit_disabled st \<longleftrightarrow> isSubmitting st \<or> \<not> truthy (Str (trim (queryText st)))"

text \<open>
  Speech for a voice reply: \<open>handleVoiceResponse\<close> and the Play Response button both
  post the answer to \<open>/api/text-to-speech\<close> and play the returned bytes through an
  object URL.
\<close>

definition handleVoiceResponse_begin ::
  "jsstring \<Rightarrow> query_page \<Rightarrow> voice_response \<Rightarrow> query_page \<times> effect list" where
  "handleVoiceResponse_begin backend st response =
     (st\<lparr>voiceResponse := Some response, queryText := query_text response,
         isPlayingTTS := True\<rparr>,
      [Post (API backend @ js ''/text-to-speech'')
         (SpeechBody (answer response) (voice_response.language response))])"

definition playResponse_begin :: "jsstring \<Rightarrow> query_page \<Rightarrow> (query_page \<times> effect list) option" where
  "playResponse_begin backend st =
     (case voiceResponse st of
        None \<Rightarrow> None
      | Some v \<Rightarrow>
          Some (st\<lparr>isPlayingTTS := True\<rparr>,
                [Post (API backend @ js ''/text-to-speech'')
                   (SpeechBody (answer v) (voice_response.language v))]))"

definition speech_settle ::
  "query_page \<Rightarrow> jsstring \<Rightarrow> 8 word list promise \<Rightarrow> query_page \<times> effect list" where
  "speech_settle st ident reply =
     (st\<lparr>isPlayingTTS := False\<rparr>,
      case reply of
        Resolved bytes \<Rightarrow>
          (let audioUrl = createObjectURL ident in
           [CreateObjectURL audioUrl bytes, AudioPlay audioUrl,
            ToastSuccess (js ''Playing AI response...'')])
      | Rejected \<Rightarrow>
          [ConsoleError (js ''TTS error:''), ToastError (js ''Failed to play audio response'')])"

subsection \<open>The query page in the running app as a transition system\<close>

text \<open>
  The \<open>QueryPage\<close> under the route \<open>/query\<close> of \<open>App\<close>, together with the requests
  that are waiting for a reply. An event is a user action on a control of the page,
  a callback from the voice recorder, the settling of a request, or a change of
  route: the links of \<open>Navbar\<close>, \<open>Footer\<close> and the other pages take the user away
  from \<open>/query\<close> and back. A control that is disabled or not rendered delivers no
  event, and nothing is delivered to the controls while the page is not mounted.
  The sample texts are not restricted to the table \<open>sampleQueries\<close>: any text may
  be loaded, which only adds behaviours.

  Leaving the route unmounts the page and nothing aborts its requests. Coming back
  mounts a new page, whose state variables start from their initial values; the
  requests of the pages mounted before are still counted, apart from those of the
  page now mounted. When a request of an earlier page settles, the rest of its
  handler runs with the effects it has, but its state setters belong to a page that
  is gone and change nothing; the same holds for a request of the last page after
  it has been left.
\<close>

record world =
  page :: query_page
  mounted :: bool
  queries_in_flight :: nat
  speech_in_flight :: nat
  earlier_queries_in_flight :: nat
  earlier_speech_in_flight :: nat

definition initial_world :: world where
  "initial_world =
     \<lparr>page = initial_query_page, mounted = True, queries_in_flight = 0, speech_in_flight = 0,
      earlier_queries_in_flight = 0, earlier_speech_in_flight = 0\<rparr>"

datatype event =
    TextChanged jsstring
  | LanguageSelected jsstring
  | SampleLoaded jsstring
  | SampleClicked jsstring
  | VoiceModeSet bool
  | VoiceTranscript jsstring
  | VoiceResponded voice_response
  | PlayResponseClicked
  | ClearClicked
  | SpeechSettled jsstring "8 word list promise"
  | EarlierSpeechSettled jsstring "8 word list promise"
  | SubmitClicked
  | QuerySettled "query_reply promise"
  | EarlierQuerySettled "query_reply promise"
  | PageLeft
  | PageEntered

definition queries_url :: "jsstring \<Rightarrow> jsstring" where
  "queries_url backend = API backend @ js ''/queries''"

fun is_navigate :: "effect \<Rightarrow> bool" where
  "is_navigate (Navigate url) = True"
| "is_navigate e = False"

fun react :: "jsstring \<Rightarrow> world \<Rightarrow> event \<Rightarrow> (world \<times> effect list) option" where
  "react backend w (TextChanged s) =
     (if mounted w then Some (w\<lparr>page := (page w)\<lparr>queryText := s\<rparr>\<rparr>, []) else None)"
| "react backend w (LanguageSelected l) =
     (if mounted w then Some (w\<lparr>page := (page w)\<lparr>query_page.language := l\<rparr>\<rparr>, []) else None)"
| "react backend w (SampleLoaded s) =
     (if mounted w then Some (w\<lparr>page := (page w)\<lparr>queryText := s\<rparr>\<rparr>, []) else None)"
| "react backend w (SampleClicked s) =
     (if mounted w then Some (w\<lparr>page := (page w)\<lparr>queryText := s\<rparr>\<rparr>, []) else None)"
| "react backend w (VoiceModeSet b) =
     (if mounted w then Some (w\<lparr>page := (page w)\<lparr>useVoice := b\<rparr>\<rparr>, []) else None)"
| "react backend w (VoiceTranscript t) =
     (if mounted w then Some (w\<lparr>page := (page w)\<lparr>queryText := t\<rparr>\<rparr>, []) else None)"
| "react backend w (VoiceResponded r) =
     (if mounted w then
        (let (st, effs) = handleVoiceResponse_begin backend (page w) r in
         Some (w\<lparr>page := st, speech_in_flight := speech_in_flight w + 1\<rparr>, effs))
      else None)"
| "react backend w PlayResponseClicked =
     (if mounted w \<and> \<not> isPlayingTTS (page w) then
        (case playResponse_begin backend (page w) of
           None \<Rightarrow> None
         | Some (st, effs) \<Rightarrow>
             Some (w\<lparr>page := st, speech_in_flight := speech_in_flight w + 1\<rparr>, effs))
      else None)"
| "react backend w ClearClicked =
     (if mounted w \<and> voiceResponse (page w) \<noteq> None then
        Some (w\<lparr>page := (page w)\<lparr>voiceResponse := None\<rparr>\<rparr>, [])
      else None)"
| "react backend w (SpeechSettled ident reply) =
     (if speech_in_flight w = 0 then None
      else
        (let (st, effs) = speech_settle (page w) ident reply in
         Some (w\<lparr>page := (if mounted w then st else page w),
                 speech_in_flight := speech_in_flight w - 1\<rparr>, effs)))"
| "react backend w (EarlierSpeechSettled ident reply) =
     (if earlier_speech_in_flight w = 0 then None
      else
        (let (st, effs) = speech_settle (page w) ident reply in
         Some (w\<lparr>earlier_speech_in_flight := earlier_speech_in_flight w - 1\<rparr>, effs)))"
| "react backend w SubmitClicked =
     (if mounted w \<and> \<not> submit_disabled (page w) then
        (let (st, effs) = handleSubmit_begin backend (page w) in
         Some (w\<lparr>page := st,
                 queries_in_flight :=
                   queries_in_flight w + length (filter (is_post_to (queries_url backend)) effs)\<rparr>,
               effs))
      else None)"
| "react backend w (QuerySettled reply) =
     (if queries_in_flight w = 0 then None
      else
        (let (st, effs) = handleSubmit_settle (page w) reply in
         Some (w\<lparr>page := (if mounted w then st else page w),
                 queries_in_flight := queries_in_flight w - 1,
                 mounted := (mounted w \<and> \<not> list_ex is_navigate effs)\<rparr>,
               effs)))"
| "react backend w (EarlierQuerySettled reply) =
     (if earlier_queries_in_flight w = 0 then None
      else
        (let (st, effs) = handleSubmit_settle (page w) reply in
         Some (w\<lparr>earlier_queries_in_flight := earlier_queries_in_flight w - 1,
                 mounted := (mounted w \<and> \<not> list_ex is_navigate effs)\<rparr>,
               effs)))"
| "react backend w PageLeft =
     (if mounted w then Some (w\<lparr>mounted := False\<rparr>, []) else None)"
| "react backend w PageEntered =
     (if mounted w then None
      else
        Some (w\<lparr>page := initial_query_page, mounted := True,
                queries_in_flight := 0, speech_in_flight := 0,
                earlier_queries_in_flight := earlier_queries_in_flight w + queries_in_flight w,
                earlier_speech_in_flight := earlier_speech_in_flight w + speech_in_flight w\<rparr>,
              []))"

fun run :: "jsstring \<Rightarrow> world \<Rightarrow> event list \<Rightarrow> world option" where
  "run backend w [] = Some w"
| "run backend w (e # es) =
     (case react backend w e of None \<Rightarrow> None | Some (w', effs) \<Rightarrow> run backend w' es)"

section \<open>pages/DocumentsPage\<close>

record 'd documents_page =
  docType :: jsstring
  language :: jsstring
  isGenerating :: bool
  generatedDoc :: "'d option"
  firDetails :: fir_details
  rtiDetails :: rti_details

text \<open>
  \<open>now\<close> is the text of \<open>new Date().toISOString()\<close> at the time of the call.
\<close>

definition handleGenerateDocument ::
  "jsstring \<Rightarrow> jsstring \<Rightarrow> 'd documents_page \<Rightarrow> 'd promise \<Rightarrow> 'd documents_page \<times> effect list" where
  "handleGenerateDocument backend now st reply =
     (let details = (if docType st = js ''FIR'' then Fir (firDetails st) else Rti (rtiDetails st)) in
      if \<not> truthy (Str (details_name details)) \<or> \<not> truthy (Str (details_address details)) then
        (st, [ToastError (js ''Please fill in at least your name and address'')])
      else
        let post = Post (API backend @ js ''/documents'')
                     (DocumentBody (docType st) (documents_page.language st) details
                        (index0 (split now 0x0054))
                        (or_else (index0 (split (details_address details) comma))
                                 (Str (js ''Your City''))))
        in case reply of
             Resolved doc \<Rightarrow>
               (st\<lparr>generatedDoc := Some doc, isGenerating := False\<rparr>,
                [post, ToastSuccess (js ''Document generated successfully!'')])
           | Rejected \<Rightarrow>
               (st\<lparr>isGenerating := False\<rparr>,
                [post, ConsoleError (js ''Error generating document:''),
                 ToastError (js ''Failed to generate document'')]))"

section \<open>pages/ResponsePage\<close>

record query_record =
  response_text :: jsval
  detected_language :: jsval

text \<open>
  The fields of the fetched query and the state variables that \<open>playTextToSpeech\<close>
  reads or writes. \<open>query\<close> is \<open>null\<close> until the query has been fetched;
  \<open>audioRef\<close> holds the URL of the audio element created by the last playback, if
  any.
\<close>

record response_page =
  query :: "query_record option"
  isGeneratingSpeech :: bool
  audioRef :: "jsstring option"

definition playTextToSpeech ::
  "jsstring \<Rightarrow> response_page \<Rightarrow> jsstring \<Rightarrow> 8 word list promise \<Rightarrow> response_page \<times> effect list" where
  "playTextToSpeech backend st ident reply =
     (case query st of
        None \<Rightarrow> (st, [])
      | Some q \<Rightarrow>
          if \<not> truthy (response_text q) then (st, [])
          else
            let post = Post (API backend @ js ''/text-to-speech'')
                         (SpeechBody (response_text q)
                            (or_else (detected_language q) (Str (js ''en''))))
            in (case reply of
                  Resolved bytes \<Rightarrow>
                    (let audioUrl = createObjectURL ident in
                     (st\<lparr>isGeneratingSpeech := False, audioRef := Some audioUrl\<rparr>,
                      [post, CreateObjectURL audioUrl bytes]
                      @ (case audioRef st of None \<Rightarrow> [] | Some old \<Rightarrow> [AudioPause old])
                      @ [AudioPlay audioUrl, ToastSuccess (js ''Playing audio response...'')]))
                | Rejected \<Rightarrow>
                    (st\<lparr>isGeneratingSpeech := False\<rparr>,
                     [post, ConsoleError (js ''Error generating speech:''),
                      ToastError (js ''Failed to generate audio. Please try again.'')])))"

section \<open>components/AudioPlayer\<close>

text \<open>
  The \<open>src\<close> of the audio element that \<open>AudioPlayer\<close> renders; without an
  \<open>audioId\<close> it renders the text "Audio not available" and no audio element.
\<close>

definition AudioPlayer_src :: "jsstring \<Rightarrow> jsval \<Rightarrow> jsstring option" where
  "AudioPlayer_src backend audioId =
     (if \<not> truthy audioId then None
      else Some (backend @ js ''/api/audio/'' @ toString audioId))"

section \<open>Notions used to state the properties\<close>

text \<open>
  \<open>Array.prototype.join\<close> with a separator of one code unit: the text whose
  separated segments are the given ones.
\<close>

fun join :: "16 word \<Rightarrow> jsstring list \<Rightarrow> jsstring" where
  "join sep [] = []"
| "join sep [x] = x"
| "join sep (x # y # ys) = x @ sep # join sep (y # ys)"

text \<open>The keys of the lookup tables in \<open>utils/helpers\<close>.\<close>

definition known_categories :: "jsstring list" where
  "known_categories =
     map js [''fir'', ''rti'', ''consumer'', ''labour'', ''family'', ''property'', ''general'']"

definition known_statuses :: "jsstring list" where
  "known_statuses = map js [''open'', ''assigned'', ''closed'']"

definition known_languages :: "jsstring list" where
  "known_languages = map js [''en'', ''hi'', ''te'']"

text \<open>
  The invariant of each mounted query page: at most one query of its own is awaited,
  and while one is awaited \<open>isSubmitting\<close> is set.
\<close>

definition one_at_a_time :: "world \<Rightarrow> bool" where
  "one_at_a_time w \<longleftrightarrow>
     queries_in_flight w \<le> 1 \<and> (queries_in_flight w = 1 \<longrightarrow> isSubmitting (page w))"

text \<open>Sample states and host functions for the worked instances below.\<close>

definition sample_backend :: jsstring where
  "sample_backend = js ''http://localhost:8001''"

definition blank_name_portal :: "unit student_portal" where
  "blank_name_portal =
     \<lparr>students = (), cases = (), loading = False, studentDialogOpen = True,
      newStudent = \<lparr>student_form.name = js ''  '', student_form.email = js ''asha@nlu.in'',
                    college = js ''NLU'', skills = js ''rti, fir''\<rparr>\<rparr>"

definition filled_portal :: "unit student_portal" where
  "filled_portal =
     \<lparr>students = (), cases = (), loading = False, studentDialogOpen = True,
      newStudent = \<lparr>student_form.name = js ''Asha'', student_form.email = js ''asha@nlu.in'',
                    college = js ''NLU'', skills = js ''rti, fir''\<rparr>\<rparr>"

definition blank_fir :: fir_details where
  "blank_fir =
     \<lparr>fir_details.name = [], age = [], fir_details.address = [], fir_details.mobile = [],
      fir_details.email = [], incident_date = [], incident_time = [], incident_place = [],
      incident_description = [], accused_details = [], witness_details = [],
      evidence_list = []\<rparr>"

definition blank_rti :: rti_details where
  "blank_rti =
     \<lparr>rti_details.name = [], rti_details.address = [], rti_details.mobile = [],
      rti_details.email = [], department_name = [], department_address = [],
      question_1 = [], question_2 = [], question_3 = [], period = [],
      fee = js ''10'', payment_mode = js ''Postal Order''\<rparr>"

definition initial_documents_page :: "unit documents_page" where
  "initial_documents_page =
     \<lparr>docType = js ''FIR'', documents_page.language = js ''en'', isGenerating = False,
      generatedDoc = None, firDetails = blank_fir, rtiDetails = blank_rti\<rparr>"

text \<open>
  A host that reads two date strings and renders their two days, in the time zone
  UTC.
\<close>

definition sample_parse :: "jsstring \<Rightarrow> int option" where
  "sample_parse s =
     (if s = js ''2024-01-15'' then Some 1705276800000
      else if s = js ''2023-08-09T10:30:00Z'' then Some 1691577000000
      else None)"

definition sample_render :: "jsstring \<Rightarrow> date_options \<Rightarrow> int \<Rightarrow> jsstring" where
  "sample_render locales options t =
     (if 1705276800000 \<le> t \<and> t < 1705363200000 then js ''15 Jan 2024''
      else if 1691539200000 \<le> t \<and> t < 1691625600000 then js ''09 Aug 2023''
      else js ''another day'')"

text \<open>The page after a query has been typed and sent.\<close>

definition submitted_page :: query_page where
  "submitted_page = initial_query_page\<lparr>queryText := js ''Help'', isSubmitting := True\<rparr>"

definition sample_answer :: response_page where
  "sample_answer =
     \<lparr>query = Some \<lparr>response_text = Str (js ''File an FIR at the police station.''),
                    detected_language = Undefined\<rparr>,
      isGeneratingSpeech = False, audioRef = None\<rparr>"

definition empty_answer :: response_page where
  "empty_answer =
     \<lparr>query = Some \<lparr>response_text = Str [], detected_language = Str (js ''hi'')\<rparr>,
      isGeneratingSpeech = False, audioRef = None\<rparr>"

definition unlabelled_answer :: response_page where
  "unlabelled_answer =
     \<lparr>query = Some \<lparr>response_text = Str (js ''File an FIR.''), detected_language = Str []\<rparr>,
      isGeneratingSpeech = False, audioRef = None\<rparr>"

section \<open>Facts about the string operations\<close>

lemma js_at: "js ''@'' = [0x0040]"
  by (simp add: js_def)

lemma includes_str_unit: "includes_str s [c] \<longleftrightarrow> c \<in> set s"
  by (induction s) auto

lemma split_from_nonempty: "split_from sep seg cs \<noteq> []"
  by (induction cs arbitrary: seg) auto

lemma join_Cons: "l \<noteq> [] \<Longrightarrow> join sep (x # l) = x @ sep # join sep l"
  by (cases l) auto

lemma join_split_from: "join sep (split_from sep seg cs) = rev seg @ cs"
  by (induction cs arbitrary: seg) (auto simp: join_Cons split_from_nonempty)

lemma split_from_no_sep:
  "sep \<notin> set seg \<Longrightarrow> x \<in> set (split_from sep seg cs) \<Longrightarrow> sep \<notin> set x"
proof (induction cs arbitrary: seg)
  case Nil
  then show ?case by simp
next
  case (Cons c cs)
  show ?case
  proof (cases "c = sep")
    case True
    with Cons.prems have "x = rev seg \<or> x \<in> set (split_from sep [] cs)" by simp
    then show ?thesis
    proof
      assume "x = rev seg"
      with Cons.prems show ?thesis by simp
    next
      assume "x \<in> set (split_from sep [] cs)"
      then show ?thesis using Cons.IH[of "[]"] by simp
    qed
  next
    case False
    with Cons.prems have "x \<in> set (split_from sep (c # seg) cs)" by simp
    moreover from False Cons.prems have "sep \<notin> set (c # seg)" by auto
    ultimately show ?thesis by (rule Cons.IH[rotated])
  qed
qed

text \<open>\<open>trim\<close> removes a run of white space at each end and nothing else.\<close>

lemma trim_tail:
  "dropWhile isWhiteSpace s =
     trim s @ rev (takeWhile isWhiteSpace (rev (dropWhile isWhiteSpace s)))"
  unfolding trim_def by (metis rev_append rev_rev_ident takeWhile_dropWhile_id)

lemma trim_decompose:
  "s = takeWhile isWhiteSpace s @ trim s
         @ rev (takeWhile isWhiteSpace (rev (dropWhile isWhiteSpace s)))"
  using trim_tail[of s] by (metis takeWhile_dropWhile_id)

lemma trim_last: "trim s \<noteq> [] \<Longrightarrow> \<not> isWhiteSpace (last (trim s))"
  unfolding trim_def by (simp add: last_rev hd_dropWhile)

lemma trim_hd:
  assumes "trim s \<noteq> []"
  shows "\<not> isWhiteSpace (hd (trim s))"
proof -
  let ?t = "dropWhile isWhiteSpace s"
  from assms trim_tail[of s] have "hd ?t = hd (trim s)" and "?t \<noteq> []"
    by (metis hd_append2, metis append_is_Nil_conv)
  then show ?thesis by (metis hd_dropWhile)
qed

lemma short_list_cases:
  assumes "length (xs :: 'a list) < 5"
  obtains "xs = []" | a where "xs = [a]" | a b where "xs = [a, b]"
    | a b c where "xs = [a, b, c]" | a b c d where "xs = [a, b, c, d]"
proof -
  from assms
  have "length xs = 0 \<or> length xs = 1 \<or> length xs = 2 \<or> length xs = 3 \<or> length xs = 4"
    by arith
  then show thesis
    using that by (auto simp: numeral_eq_Suc length_Suc_conv)
qed

lemma is_blob_url_createObjectURL: "is_blob_url (createObjectURL ident)"
  by (simp add: is_blob_url_def createObjectURL_def js_def)

lemma is_blob_url_audio_path:
  "is_blob_url (backend @ js ''/api/audio/'' @ rest) \<longleftrightarrow> is_blob_url backend"
proof (cases "length backend < 5")
  case False
  then show ?thesis by (simp add: is_blob_url_def)
next
  case True
  then show ?thesis
    by (cases backend rule: short_list_cases) (simp_all add: is_blob_url_def js_def)
qed

section \<open>utils/helpers: the lookup tables\<close>

text \<open>
  For every key that is not the name of a member of \<open>Object.prototype\<close> the four
  lookups behave as tables with a default.
\<close>

lemma getCategoryStyle_plain:
  "c \<notin> set object_prototype_names \<Longrightarrow>
     getCategoryStyle c =
       Text (if c \<in> set known_categories then js ''category-'' @ c else js ''category-general'')"
  by (simp add: getCategoryStyle_def or_default_def get_property_def category_styles_def
      known_categories_def js_def)

lemma getStatusStyle_plain:
  "c \<notin> set object_prototype_names \<Longrightarrow>
     getStatusStyle c =
       Text (if c \<in> set known_statuses then js ''status-'' @ c else js ''status-open'')"
  by (simp add: getStatusStyle_def or_default_def get_property_def status_styles_def
      known_statuses_def js_def)

lemma getCategoryLabel_plain:
  "c \<notin> set object_prototype_names \<Longrightarrow> c \<notin> set known_categories \<Longrightarrow>
     getCategoryLabel c = Text c"
  by (simp add: getCategoryLabel_def or_default_def get_property_def category_labels_def
      known_categories_def js_def)

lemma getLanguageLabel_plain:
  "c \<notin> set object_prototype_names \<Longrightarrow> c \<notin> set known_languages \<Longrightarrow>
     getLanguageLabel c = Text c"
  by (simp add: getLanguageLabel_def or_default_def get_property_def language_labels_def
      known_languages_def js_def)

text \<open>
  For a key that is the name of a member of \<open>Object.prototype\<close> each of the four
  lookups returns that member.
\<close>

lemma getCategoryStyle_inherited:
  assumes "c \<in> set object_prototype_names"
  shows "getCategoryStyle c = Builtin c"
proof -
  have "list_all (\<lambda>k. getCategoryStyle k = Builtin k) object_prototype_names"
    by (simp add: getCategoryStyle_def or_default_def get_property_def category_styles_def
        object_prototype_names_def js_def)
  with assms show ?thesis by (simp add: list_all_iff)
qed

lemma getStatusStyle_inherited:
  assumes "c \<in> set object_prototype_names"
  shows "getStatusStyle c = Builtin c"
proof -
  have "list_all (\<lambda>k. getStatusStyle k = Builtin k) object_prototype_names"
    by (simp add: getStatusStyle_def or_default_def get_property_def status_styles_def
        object_prototype_names_def js_def)
  with assms show ?thesis by (simp add: list_all_iff)
qed

lemma getCategoryLabel_inherited:
  assumes "c \<in> set object_prototype_names"
  shows "getCategoryLabel c = Builtin c"
proof -
  have "list_all (\<lambda>k. getCategoryLabel k = Builtin k) object_prototype_names"
    by (simp add: getCategoryLabel_def or_default_def get_property_def category_labels_def
        object_prototype_names_def js_def)
  with assms show ?thesis by (simp add: list_all_iff)
qed

lemma getLanguageLabel_inherited:
  assumes "c \<in> set object_prototype_names"
  shows "getLanguageLabel c = Builtin c"
proof -
  have "list_all (\<lambda>k. getLanguageLabel k = Builtin k) object_prototype_names"
    by (simp add: getLanguageLabel_def or_default_def get_property_def language_labels_def
        object_prototype_names_def js_def)
  with assms show ?thesis by (simp add: list_all_iff)
qed

text \<open>
  Claim C2. The badge styling lookups are total functions with defaults: for every
  input string, \<open>getCategoryStyle\<close> returns the style class of a known category and
  \<open>category-general\<close> for every other input, and \<open>getStatusStyle\<close> returns the style
  class of a known status and \<open>status-open\<close> for every other input. The code departs
  from this at the string \<open>constructor\<close>, which is no category and no status: the
  tables are object literals, the read \<open>styles[category]\<close> finds the member
  \<open>constructor\<close> inherited from \<open>Object.prototype\<close>, that function is truthy, and
  so it is returned in place of the default class.
\<close>

theorem getCategoryStyle_inherited_key:
  "js ''constructor'' \<notin> set known_categories
   \<and> getCategoryStyle (js ''constructor'') = Builtin (js ''constructor'')
   \<and> getCategoryStyle (js ''constructor'') \<noteq> Text (js ''category-general'')
   \<and> js ''constructor'' \<notin> set known_statuses
   \<and> getStatusStyle (js ''constructor'') = Builtin (js ''constructor'')
   \<and> getStatusStyle (js ''constructor'') \<noteq> Text (js ''status-open'')"
  by (simp add: getCategoryStyle_def getStatusStyle_def or_default_def get_property_def
      category_styles_def status_styles_def object_prototype_names_def known_categories_def
      known_statuses_def js_def)

text \<open>
  Claim C9. \<open>getCategoryLabel\<close> and \<open>getLanguageLabel\<close> return every string that is
  not one of their keys unchanged. The code departs from this at the string
  \<open>toString\<close>, which is no category and no language code: the read
  \<open>labels[category]\<close> finds the function inherited from \<open>Object.prototype\<close> and
  returns it in place of the input.
\<close>

theorem getCategoryLabel_inherited_key:
  "js ''toString'' \<notin> set known_categories
   \<and> getCategoryLabel (js ''toString'') = Builtin (js ''toString'')
   \<and> getCategoryLabel (js ''toString'') \<noteq> Text (js ''toString'')
   \<and> js ''toString'' \<notin> set known_languages
   \<and> getLanguageLabel (js ''toString'') = Builtin (js ''toString'')
   \<and> getLanguageLabel (js ''toString'') \<noteq> Text (js ''toString'')"
  by (simp add: getCategoryLabel_def getLanguageLabel_def or_default_def get_property_def
      category_labels_def language_labels_def object_prototype_names_def known_categories_def
      known_languages_def js_def)

section \<open>utils/helpers: formatting a date\<close>

text \<open>The language-tag check on tags of each shape, valid and not.\<close>

lemma language_tag_examples:
  "list_all (\<lambda>t. isStructurallyValidLanguageTag (js t))
     [''en-IN'', ''en'', ''EN-in'', ''zh-Hans-CN'', ''es-419'', ''sl-rozaj-biske-1994'',
      ''de-DE-u-co-phonebk'', ''en-u-attr-ca-gregory'', ''en-t-hi'', ''en-t-h0-hybrid'',
      ''en-a-bb-u-ca-x-1'', ''en-x-a'']"
  "list_all (\<lambda>t. \<not> isStructurallyValidLanguageTag (js t))
     [''en_IN'', [], ''e'', ''abcd'', ''en-'', ''en--IN'', ''en-IN-IN'', ''de-1996-1996'',
      ''en-u'', ''en-t'', ''en-t-h0'', ''en-a-bb-a-cc'', ''en-x'', ''x-private'']"
  by code_simp+

lemma en_IN_valid: "isStructurallyValidLanguageTag (js ''en-IN'')"
  by code_simp

lemma formatDate_options_ok:
  "options_ok \<lparr>day = Str (js ''2-digit''), month = Str (js ''short''), year = Str (js ''numeric'')\<rparr>"
  by (simp add: options_ok_def getOption_ok_def js_def)

text \<open>
  With other arguments the host call does throw: the tag \<open>en_IN\<close> and the month
  style \<open>abbr\<close> are refused for a date that has a time value, and are not looked at
  for one that has none.
\<close>

lemma toLocaleDateString_throws:
  "toLocaleDateString render (Some t) (js ''en_IN'') options = Inl RangeError"
  "toLocaleDateString render (Some t) (js ''en-IN'')
     \<lparr>day = Undefined, month = Str (js ''abbr''), year = Undefined\<rparr> = Inl RangeError"
  "toLocaleDateString render None (js ''en_IN'') options = Inr (js ''Invalid Date'')"
proof -
  have "\<not> isStructurallyValidLanguageTag (js ''en_IN'')" by code_simp
  then show "toLocaleDateString render (Some t) (js ''en_IN'') options = Inl RangeError"
    by (simp add: toLocaleDateString_def)
  show "toLocaleDateString render (Some t) (js ''en-IN'')
     \<lparr>day = Undefined, month = Str (js ''abbr''), year = Undefined\<rparr> = Inl RangeError"
    by (simp add: toLocaleDateString_def options_ok_def getOption_ok_def js_def)
  show "toLocaleDateString render None (js ''en_IN'') options = Inr (js ''Invalid Date'')"
    by (simp add: toLocaleDateString_def)
qed

text \<open>
  A string that is truthy and that the host cannot read as a date gives no date
  string: the host here reads no date from \<open>garbage\<close>, and \<open>formatDate\<close> returns the
  text \<open>Invalid Date\<close>.
\<close>

theorem formatDate_unreadable_counterexample:
  "truthy (Str (js ''garbage''))
   \<and> sample_parse (js ''garbage'') = None
   \<and> formatDate sample_parse sample_render (Str (js ''garbage'')) = Inr (js ''Invalid Date'')"
  by (simp add: formatDate_def toLocaleDateString_def sample_parse_def js_def)

text \<open>
  Claim C8, amended. \<open>formatDate\<close> returns the empty string for every falsy input
  (the empty string, null, undefined). For every truthy input that the host reads
  as a date it returns the text that the locale conversion for \<open>en-IN\<close>, with a
  two-digit day, a short month and a numeric year, gives for that date; for every
  truthy input that the host cannot read as a date it returns the text
  \<open>Invalid Date\<close>. It never throws.
\<close>

theorem formatDate_cases:
  "formatDate parse render Undefined = Inr []
   \<and> formatDate parse render Null = Inr []
   \<and> formatDate parse render (Str []) = Inr []
   \<and> (\<not> truthy v \<longrightarrow> formatDate parse render v = Inr [])
   \<and> (truthy v \<longrightarrow> (\<exists>s. v = Str s \<and> s \<noteq> []))
   \<and> (\<forall>s t. v = Str s \<and> s \<noteq> [] \<and> parse s = Some t \<longrightarrow>
         formatDate parse render v =
           Inr (render (js ''en-IN'')
                  \<lparr>day = Str (js ''2-digit''), month = Str (js ''short''),
                   year = Str (js ''numeric'')\<rparr> t))
   \<and> (\<forall>s. v = Str s \<and> s \<noteq> [] \<and> parse s = None \<longrightarrow>
         formatDate parse render v = Inr (js ''Invalid Date''))
   \<and> (\<forall>e. formatDate parse render v \<noteq> Inl e)"
proof -
  have ok: "isStructurallyValidLanguageTag (js ''en-IN'')
      \<and> options_ok \<lparr>day = Str (js ''2-digit''), month = Str (js ''short''),
                      year = Str (js ''numeric'')\<rparr>"
    using en_IN_valid formatDate_options_ok by simp
  show ?thesis
    by (cases v) (auto simp: formatDate_def toLocaleDateString_def ok split: option.splits)
qed

theorem formatDate_cases_witness:
  "formatDate sample_parse sample_render (Str (js ''2024-01-15'')) = Inr (js ''15 Jan 2024'')
   \<and> formatDate sample_parse sample_render (Str (js ''2023-08-09T10:30:00Z''))
       = Inr (js ''09 Aug 2023'')
   \<and> formatDate sample_parse sample_render (Str (js ''15/01/2024'')) = Inr (js ''Invalid Date'')
   \<and> formatDate sample_parse sample_render Null = Inr []"
proof -
  have a: "sample_parse (js ''2024-01-15'') = Some 1705276800000"
    and b: "sample_parse (js ''2023-08-09T10:30:00Z'') = Some 1691577000000"
    and c: "sample_parse (js ''15/01/2024'') = None"
    by (simp_all add: sample_parse_def js_def)
  have ne: "js ''2024-01-15'' \<noteq> []" "js ''2023-08-09T10:30:00Z'' \<noteq> []" "js ''15/01/2024'' \<noteq> []"
    by (simp_all add: js_def)
  show ?thesis
    using a b c ne
      formatDate_cases[of sample_parse sample_render "Str (js ''2024-01-15'')"]
      formatDate_cases[of sample_parse sample_render "Str (js ''2023-08-09T10:30:00Z'')"]
      formatDate_cases[of sample_parse sample_render "Str (js ''15/01/2024'')"]
    by (simp add: sample_render_def)
qed

section \<open>pages/StudentPortal: adding a student\<close>

lemma handleAddStudent_invalid:
  assumes "trim (student_form.name (newStudent st)) = []
     \<or> trim (student_form.email (newStudent st)) = []
     \<or> \<not> includes_str (student_form.email (newStudent st)) (js ''@'')
     \<or> trim (college (newStudent st)) = []"
  shows "\<exists>msg. handleAddStudent backend st reply fetched = (st, [ToastError msg])"
  using assms by (auto simp: handleAddStudent_def Let_def)

lemma handleAddStudent_valid:
  assumes "trim (student_form.name (newStudent st)) \<noteq> []"
    and "trim (student_form.email (newStudent st)) \<noteq> []"
    and "includes_str (student_form.email (newStudent st)) (js ''@'')"
    and "trim (college (newStudent st)) \<noteq> []"
  shows "\<exists>st' effs. handleAddStudent backend st reply fetched =
     (st', Post (API backend @ js ''/students'')
             (StudentBody (student_form.name (newStudent st))
                (student_form.email (newStudent st)) (college (newStudent st))
                (skillsArray (skills (newStudent st)))) # effs)"
  using assms
  by (auto simp: handleAddStudent_def Let_def split: promise.splits prod.splits)

text \<open>
  Claim C1. For every state of the add-student form, \<open>handleAddStudent\<close> issues the
  POST to \<open>/api/students\<close> if and only if the validation passes: the trimmed name,
  email and college are all non-empty and the email passes the check for an address
  (it contains \<open>@\<close>); when a check fails, an error message is shown, the state
  stays as it was and no request is made.
\<close>

theorem handleAddStudent_posts_iff_valid:
  "list_ex (is_post_to (API backend @ js ''/students''))
       (snd (handleAddStudent backend st reply fetched))
     = (trim (student_form.name (newStudent st)) \<noteq> []
        \<and> trim (student_form.email (newStudent st)) \<noteq> []
        \<and> includes_str (student_form.email (newStudent st)) (js ''@'')
        \<and> trim (college (newStudent st)) \<noteq> [])
   \<and> (\<not> (trim (student_form.name (newStudent st)) \<noteq> []
          \<and> trim (student_form.email (newStudent st)) \<noteq> []
          \<and> includes_str (student_form.email (newStudent st)) (js ''@'')
          \<and> trim (college (newStudent st)) \<noteq> [])
      \<longrightarrow> (\<exists>msg. handleAddStudent backend st reply fetched = (st, [ToastError msg]))
          \<and> \<not> list_ex is_request (snd (handleAddStudent backend st reply fetched)))"
proof (cases "trim (student_form.name (newStudent st)) \<noteq> []
        \<and> trim (student_form.email (newStudent st)) \<noteq> []
        \<and> includes_str (student_form.email (newStudent st)) (js ''@'')
        \<and> trim (college (newStudent st)) \<noteq> []")
  case True
  then obtain st' effs where "handleAddStudent backend st reply fetched =
     (st', Post (API backend @ js ''/students'')
             (StudentBody (student_form.name (newStudent st))
                (student_form.email (newStudent st)) (college (newStudent st))
                (skillsArray (skills (newStudent st)))) # effs)"
    using handleAddStudent_valid[of st backend reply fetched] by auto
  with True show ?thesis by simp
next
  case False
  then obtain msg where "handleAddStudent backend st reply fetched = (st, [ToastError msg])"
    using handleAddStudent_invalid[of st backend reply fetched] by auto
  with False show ?thesis by simp
qed

theorem handleAddStudent_posts_iff_valid_witness:
  "trim (student_form.name (newStudent blank_name_portal)) = []
   \<and> (\<exists>msg. handleAddStudent sample_backend blank_name_portal (Resolved ()) Rejected
               = (blank_name_portal, [ToastError msg]))
   \<and> \<not> list_ex is_request
          (snd (handleAddStudent sample_backend blank_name_portal (Resolved ()) Rejected))
   \<and> list_ex (is_post_to (API sample_backend @ js ''/students''))
          (snd (handleAddStudent sample_backend filled_portal (Resolved ()) Rejected))"
proof -
  have blank: "trim (student_form.name (newStudent blank_name_portal)) = []"
    by (simp add: blank_name_portal_def trim_def isWhiteSpace_def js_def)
  have filled: "trim (student_form.name (newStudent filled_portal)) \<noteq> []
        \<and> trim (student_form.email (newStudent filled_portal)) \<noteq> []
        \<and> includes_str (student_form.email (newStudent filled_portal)) (js ''@'')
        \<and> trim (college (newStudent filled_portal)) \<noteq> []"
    by (simp add: filled_portal_def trim_def isWhiteSpace_def js_def)
  show ?thesis
    using blank filled
      handleAddStudent_posts_iff_valid[of sample_backend blank_name_portal "Resolved ()" Rejected]
      handleAddStudent_posts_iff_valid[of sample_backend filled_portal "Resolved ()" Rejected]
    by simp
qed

text \<open>
  Claim C10. For every skills input, the array posted with a new student consists
  of exactly the comma-separated segments of the input, each trimmed, with the
  segments that are then empty removed; so no element of the array is empty or
  begins or ends with white space. The segments are the texts free of commas whose
  join with commas is the input.
\<close>

theorem skillsArray_trimmed_segments:
  "(list_ex (is_post_to (API backend @ js ''/students''))
        (snd (handleAddStudent backend st reply fetched))
      \<longrightarrow> (\<exists>rest. snd (handleAddStudent backend st reply fetched) =
             Post (API backend @ js ''/students'')
               (StudentBody (student_form.name (newStudent st))
                  (student_form.email (newStudent st)) (college (newStudent st))
                  (skillsArray (skills (newStudent st)))) # rest))
   \<and> join comma (split input comma) = input
   \<and> (\<forall>seg \<in> set (split input comma). comma \<notin> set seg)
   \<and> skillsArray input = filter (\<lambda>s. s \<noteq> []) (map trim (split input comma))
   \<and> (\<forall>x \<in> set (skillsArray input).
         x \<noteq> [] \<and> \<not> isWhiteSpace (hd x) \<and> \<not> isWhiteSpace (last x))"
proof (intro conjI ballI impI)
  assume posted: "list_ex (is_post_to (API backend @ js ''/students''))
        (snd (handleAddStudent backend st reply fetched))"
  have "\<not> (trim (student_form.name (newStudent st)) = []
     \<or> trim (student_form.email (newStudent st)) = []
     \<or> \<not> includes_str (student_form.email (newStudent st)) (js ''@'')
     \<or> trim (college (newStudent st)) = [])"
  proof
    assume "trim (student_form.name (newStudent st)) = []
     \<or> trim (student_form.email (newStudent st)) = []
     \<or> \<not> includes_str (student_form.email (newStudent st)) (js ''@'')
     \<or> trim (college (newStudent st)) = []"
    then obtain msg where "handleAddStudent backend st reply fetched = (st, [ToastError msg])"
      using handleAddStudent_invalid[of st backend reply fetched] by blast
    with posted show False by simp
  qed
  then obtain st' effs where "handleAddStudent backend st reply fetched =
     (st', Post (API backend @ js ''/students'')
             (StudentBody (student_form.name (newStudent st))
                (student_form.email (newStudent st)) (college (newStudent st))
                (skillsArray (skills (newStudent st)))) # effs)"
    using handleAddStudent_valid[of st backend reply fetched] by auto
  then show "\<exists>rest. snd (handleAddStudent backend st reply fetched) =
             Post (API backend @ js ''/students'')
               (StudentBody (student_form.name (newStudent st))
                  (student_form.email (newStudent st)) (college (newStudent st))
                  (skillsArray (skills (newStudent st)))) # rest"
    by simp
next
  show "join comma (split input comma) = input"
    by (simp add: split_def join_split_from)
next
  fix seg assume "seg \<in> set (split input comma)"
  then show "comma \<notin> set seg"
    unfolding split_def using split_from_no_sep[of comma "[]"] by simp
next
  show "skillsArray input = filter (\<lambda>s. s \<noteq> []) (map trim (split input comma))"
    by (simp add: skillsArray_def)
next
  fix x assume "x \<in> set (skillsArray input)"
  then obtain seg where "x = trim seg" "x \<noteq> []" by (auto simp: skillsArray_def)
  then show "x \<noteq> []" "\<not> isWhiteSpace (hd x)" "\<not> isWhiteSpace (last x)"
    using trim_hd trim_last by auto
qed

theorem skillsArray_trimmed_segments_witness:
  "(\<exists>rest. snd (handleAddStudent sample_backend filled_portal (Resolved ()) Rejected) =
       Post (js ''http://localhost:8001/api/students'')
         (StudentBody (js ''Asha'') (js ''asha@nlu.in'') (js ''NLU'') [js ''rti'', js ''fir''])
       # rest)
   \<and> skillsArray (js '' law, research ,, rti  '') = [js ''law'', js ''research'', js ''rti'']
   \<and> \<not> isWhiteSpace (hd (js ''law'')) \<and> \<not> isWhiteSpace (last (js ''law''))
   \<and> \<not> isWhiteSpace (hd (js ''research'')) \<and> \<not> isWhiteSpace (last (js ''research''))
   \<and> \<not> isWhiteSpace (hd (js ''rti'')) \<and> \<not> isWhiteSpace (last (js ''rti''))
   \<and> join comma (split (js '' law, research ,, rti  '') comma) = js '' law, research ,, rti  ''"
proof -
  have e: "skillsArray (js '' law, research ,, rti  '') = [js ''law'', js ''research'', js ''rti'']"
    by (simp add: skillsArray_def split_def comma_def trim_def isWhiteSpace_def js_def)
  have p: "list_ex (is_post_to (API sample_backend @ js ''/students''))
        (snd (handleAddStudent sample_backend filled_portal (Resolved ()) Rejected))"
    by (simp add: handleAddStudent_def filled_portal_def fetchData_def trim_def
        isWhiteSpace_def js_def)
  have k: "skillsArray (skills (newStudent filled_portal)) = [js ''rti'', js ''fir'']"
    by (simp add: filled_portal_def skillsArray_def split_def comma_def trim_def
        isWhiteSpace_def js_def)
  have u: "API sample_backend @ js ''/students'' = js ''http://localhost:8001/api/students''"
    by (simp add: API_def sample_backend_def js_def)
  have f: "student_form.name (newStudent filled_portal) = js ''Asha''
      \<and> student_form.email (newStudent filled_portal) = js ''asha@nlu.in''
      \<and> college (newStudent filled_portal) = js ''NLU''"
    by (simp add: filled_portal_def)
  show ?thesis
    using p skillsArray_trimmed_segments[of sample_backend filled_portal "Resolved ()" Rejected
        "js '' law, research ,, rti  ''"]
    unfolding e k u by (simp add: f)
qed

section \<open>pages/QueryPage: submitting a query\<close>

text \<open>
  Claim C3. \<open>handleSubmit\<close> posts \<open>{query_text, language}\<close> to \<open>/api/queries\<close> if and
  only if the trimmed query text is non-empty; on empty or blank text an error is
  shown and no request is made; and when the request succeeds with an id, the app
  navigates to \<open>/response/<id>\<close>.
\<close>

theorem handleSubmit_posts_iff_text:
  "list_ex (is_post_to (queries_url backend)) (snd (handleSubmit backend st reply))
     = (trim (queryText st) \<noteq> [])
   \<and> (trim (queryText st) = [] \<longrightarrow>
        handleSubmit backend st reply = (st, [ToastError (js ''Please enter your legal query'')]))
   \<and> (trim (queryText st) \<noteq> [] \<longrightarrow>
        (\<exists>rest. snd (handleSubmit backend st reply) =
           Post (queries_url backend) (QueryBody (queryText st) (query_page.language st)) # rest
           \<and> \<not> list_ex is_request rest))
   \<and> (trim (queryText st) \<noteq> [] \<and> reply = Resolved (Data ident) \<longrightarrow>
        snd (handleSubmit backend st reply) =
          [Post (queries_url backend) (QueryBody (queryText st) (query_page.language st)),
           ToastSuccess (js ''Query processed successfully!''),
           Navigate (js ''/response/'' @ toString ident)])"
  by (auto simp: handleSubmit_def handleSubmit_begin_def handleSubmit_settle_def queries_url_def
      split: promise.splits query_reply.splits)

theorem handleSubmit_posts_iff_text_witness:
  "trim (queryText (initial_query_page\<lparr>queryText := js '' How do I file an FIR? ''\<rparr>)) \<noteq> []
   \<and> snd (handleSubmit sample_backend
            (initial_query_page\<lparr>queryText := js '' How do I file an FIR? ''\<rparr>)
            (Resolved (Data (Str (js ''q42''))))) =
        [Post (js ''http://localhost:8001/api/queries'')
           (QueryBody (js '' How do I file an FIR? '') (js ''en'')),
         ToastSuccess (js ''Query processed successfully!''),
         Navigate (js ''/response/q42'')]
   \<and> trim (queryText (initial_query_page\<lparr>queryText := js ''   ''\<rparr>)) = []
   \<and> handleSubmit sample_backend (initial_query_page\<lparr>queryText := js ''   ''\<rparr>) Rejected
       = (initial_query_page\<lparr>queryText := js ''   ''\<rparr>,
          [ToastError (js ''Please enter your legal query'')])"
proof -
  have full: "trim (queryText (initial_query_page\<lparr>queryText := js '' How do I file an FIR? ''\<rparr>)) \<noteq> []"
    by (simp add: trim_def isWhiteSpace_def js_def)
  have blank: "trim (queryText (initial_query_page\<lparr>queryText := js ''   ''\<rparr>)) = []"
    by (simp add: trim_def isWhiteSpace_def js_def)
  show ?thesis
    using full blank
      handleSubmit_posts_iff_text[of sample_backend
        "initial_query_page\<lparr>queryText := js '' How do I file an FIR? ''\<rparr>"
        "Resolved (Data (Str (js ''q42'')))" "Str (js ''q42'')"]
      handleSubmit_posts_iff_text[of sample_backend
        "initial_query_page\<lparr>queryText := js ''   ''\<rparr>" Rejected]
    by (simp add: queries_url_def API_def sample_backend_def initial_query_page_def js_def)
qed

lemma react_keeps:
  assumes "one_at_a_time w" and "react backend w e = Some (w', effs)"
  shows "one_at_a_time w'"
  using assms
  by (cases e)
     (auto simp: one_at_a_time_def handleSubmit_begin_def handleSubmit_settle_def
        submit_disabled_def handleVoiceResponse_begin_def playResponse_begin_def
        speech_settle_def queries_url_def initial_query_page_def
        split: if_splits option.splits prod.splits)

lemma run_keeps:
  "one_at_a_time w \<Longrightarrow> run backend w es = Some w' \<Longrightarrow> one_at_a_time w'"
proof (induction es arbitrary: w)
  case Nil
  then show ?case by simp
next
  case (Cons e es)
  then show ?case by (auto split: option.splits dest: react_keeps)
qed

lemma react_posts_query:
  assumes "react backend w e = Some (w', effs)"
    and "list_ex (is_post_to (queries_url backend)) effs"
  shows "e = SubmitClicked \<and> \<not> isSubmitting (page w)"
  using assms
  by (cases e)
     (auto simp: handleSubmit_begin_def handleSubmit_settle_def submit_disabled_def
        handleVoiceResponse_begin_def playResponse_begin_def speech_settle_def
        queries_url_def API_def js_def Let_def
        split: if_splits option.splits prod.splits promise.splits query_reply.splits)

text \<open>
  A second POST is started while a first is still in flight: the user sends a
  query, leaves the page before the reply, comes back and sends again. The new
  page starts with \<open>isSubmitting\<close> false, so its submit button is enabled.
\<close>

theorem second_query_after_return_counterexample:
  "run sample_backend initial_world
       [TextChanged (js ''Help''), SubmitClicked, PageLeft, PageEntered, TextChanged (js ''Help'')]
     = Some \<lparr>page = initial_query_page\<lparr>queryText := js ''Help''\<rparr>, mounted = True,
             queries_in_flight = 0, speech_in_flight = 0,
             earlier_queries_in_flight = 1, earlier_speech_in_flight = 0\<rparr>
   \<and> react sample_backend
        \<lparr>page = initial_query_page\<lparr>queryText := js ''Help''\<rparr>, mounted = True,
         queries_in_flight = 0, speech_in_flight = 0,
         earlier_queries_in_flight = 1, earlier_speech_in_flight = 0\<rparr> SubmitClicked
     = Some (\<lparr>page = submitted_page, mounted = True,
              queries_in_flight = 1, speech_in_flight = 0,
              earlier_queries_in_flight = 1, earlier_speech_in_flight = 0\<rparr>,
             [Post (js ''http://localhost:8001/api/queries'')
                (QueryBody (js ''Help'') (js ''en''))])"
  by (simp add: initial_world_def initial_query_page_def submitted_page_def submit_disabled_def
      handleSubmit_begin_def queries_url_def API_def sample_backend_def trim_def
      isWhiteSpace_def js_def)

text \<open>
  Claim C4, amended. Each mounted query page waits for one reply at a time: in
  every state that the app can reach, at most one POST to \<open>/api/queries\<close> started by
  the page now mounted is in flight; a step that starts such a POST is taken only
  when the page has none of its own in flight, and it sets \<open>isSubmitting\<close>; and
  while one of its own is in flight the submit button is disabled, so a click on it
  starts nothing. A POST started by an earlier mount of the page does not hold the
  form back.
\<close>

theorem one_query_in_flight_per_mount:
  assumes "run backend initial_world es = Some w"
  shows "queries_in_flight w \<le> 1
    \<and> (queries_in_flight w = 1 \<longrightarrow>
         submit_disabled (page w) \<and> react backend w SubmitClicked = None)
    \<and> (\<forall>e w' effs.
          react backend w e = Some (w', effs)
            \<and> list_ex (is_post_to (queries_url backend)) effs
          \<longrightarrow> queries_in_flight w = 0 \<and> queries_in_flight w' = 1 \<and> isSubmitting (page w'))"
proof -
  have "one_at_a_time initial_world"
    by (simp add: one_at_a_time_def initial_world_def)
  then have inv: "one_at_a_time w" using assms by (rule run_keeps)
  show ?thesis
  proof (intro conjI allI impI)
    show "queries_in_flight w \<le> 1" using inv by (simp add: one_at_a_time_def)
  next
    assume "queries_in_flight w = 1"
    with inv show "submit_disabled (page w)"
      by (simp add: one_at_a_time_def submit_disabled_def)
    then show "react backend w SubmitClicked = None" by simp
  next
    fix e w' effs
    assume h: "react backend w e = Some (w', effs)
      \<and> list_ex (is_post_to (queries_url backend)) effs"
    then have e: "e = SubmitClicked" and n: "\<not> isSubmitting (page w)"
      using react_posts_query by blast+
    from n show z: "queries_in_flight w = 0" using inv by (auto simp: one_at_a_time_def)
    from h e show "isSubmitting (page w')"
      by (auto simp: handleSubmit_begin_def split: if_splits)
    from h e z show "queries_in_flight w' = 1"
      by (auto simp: handleSubmit_begin_def queries_url_def split: if_splits)
  qed
qed

theorem one_query_in_flight_per_mount_witness:
  "run sample_backend initial_world
       [TextChanged (js ''Help''), SubmitClicked, PageLeft, PageEntered,
        TextChanged (js ''Help''), SubmitClicked, TextChanged (js ''Help me'')]
     = Some \<lparr>page = submitted_page\<lparr>queryText := js ''Help me''\<rparr>, mounted = True,
             queries_in_flight = 1, speech_in_flight = 0,
             earlier_queries_in_flight = 1, earlier_speech_in_flight = 0\<rparr>
   \<and> react sample_backend
        \<lparr>page = submitted_page\<lparr>queryText := js ''Help me''\<rparr>, mounted = True,
         queries_in_flight = 1, speech_in_flight = 0,
         earlier_queries_in_flight = 1, earlier_speech_in_flight = 0\<rparr> SubmitClicked = None"
proof -
  have r: "run sample_backend initial_world
       [TextChanged (js ''Help''), SubmitClicked, PageLeft, PageEntered,
        TextChanged (js ''Help''), SubmitClicked, TextChanged (js ''Help me'')]
     = Some \<lparr>page = submitted_page\<lparr>queryText := js ''Help me''\<rparr>, mounted = True,
             queries_in_flight = 1, speech_in_flight = 0,
             earlier_queries_in_flight = 1, earlier_speech_in_flight = 0\<rparr>"
    by (simp add: initial_world_def initial_query_page_def submitted_page_def
        submit_disabled_def handleSubmit_begin_def queries_url_def trim_def isWhiteSpace_def
        js_def)
  show ?thesis
    using r one_query_in_flight_per_mount[OF r] by simp
qed

section \<open>pages/DocumentsPage: generating a document\<close>

text \<open>
  Claim C5. For every state of the document generator, \<open>handleGenerateDocument\<close>
  issues the POST to \<open>/api/documents\<close> if and only if the name and the address of
  the selected form (the FIR details when \<open>docType\<close> is \<open>FIR\<close>, the RTI details
  otherwise) are both non-empty; when they are not, an error is shown, no request is
  made and the state, \<open>generatedDoc\<close> included, is left as it was.
\<close>

theorem handleGenerateDocument_posts_iff_filled:
  "list_ex (is_post_to (API backend @ js ''/documents''))
       (snd (handleGenerateDocument backend now st reply))
     = (if docType st = js ''FIR''
        then fir_details.name (firDetails st) \<noteq> [] \<and> fir_details.address (firDetails st) \<noteq> []
        else rti_details.name (rtiDetails st) \<noteq> [] \<and> rti_details.address (rtiDetails st) \<noteq> [])
   \<and> (\<not> (if docType st = js ''FIR''
          then fir_details.name (firDetails st) \<noteq> [] \<and> fir_details.address (firDetails st) \<noteq> []
          else rti_details.name (rtiDetails st) \<noteq> [] \<and> rti_details.address (rtiDetails st) \<noteq> [])
      \<longrightarrow> handleGenerateDocument backend now st reply
            = (st, [ToastError (js ''Please fill in at least your name and address'')])
          \<and> \<not> list_ex is_request (snd (handleGenerateDocument backend now st reply))
          \<and> generatedDoc (fst (handleGenerateDocument backend now st reply)) = generatedDoc st)"
  by (auto simp: handleGenerateDocument_def Let_def split: promise.splits)

theorem handleGenerateDocument_posts_iff_filled_witness:
  "handleGenerateDocument sample_backend (js ''2024-01-15T10:00:00.000Z'')
       (initial_documents_page\<lparr>firDetails := blank_fir\<lparr>fir_details.name := js ''Asha''\<rparr>\<rparr>)
       (Resolved ())
     = (initial_documents_page\<lparr>firDetails := blank_fir\<lparr>fir_details.name := js ''Asha''\<rparr>\<rparr>,
        [ToastError (js ''Please fill in at least your name and address'')])
   \<and> list_ex (is_post_to (API sample_backend @ js ''/documents''))
        (snd (handleGenerateDocument sample_backend (js ''2024-01-15T10:00:00.000Z'')
           (initial_documents_page
              \<lparr>docType := js ''RTI'',
               rtiDetails := blank_rti\<lparr>rti_details.name := js ''Asha'',
                                       rti_details.address := js ''Hyderabad, TS''\<rparr>\<rparr>)
           (Resolved ())))"
  using handleGenerateDocument_posts_iff_filled[where backend = sample_backend
      and st = "initial_documents_page\<lparr>firDetails := blank_fir\<lparr>fir_details.name := js ''Asha''\<rparr>\<rparr>"
      and now = "js ''2024-01-15T10:00:00.000Z''" and reply = "Resolved ()"]
    handleGenerateDocument_posts_iff_filled[where backend = sample_backend
      and st = "initial_documents_page
              \<lparr>docType := js ''RTI'',
               rtiDetails := blank_rti\<lparr>rti_details.name := js ''Asha'',
                                       rti_details.address := js ''Hyderabad, TS''\<rparr>\<rparr>"
      and now = "js ''2024-01-15T10:00:00.000Z''" and reply = "Resolved ()"]
  by (simp add: initial_documents_page_def blank_fir_def blank_rti_def js_def)

section \<open>pages/ResponsePage and components/AudioPlayer: playing audio\<close>

text \<open>
  A reply text that is present but empty starts no request, and a language that is
  present but empty is replaced by \<open>en\<close> in the request.
\<close>

theorem playTextToSpeech_empty_text_counterexample:
  "response_text \<lparr>response_text = Str [], detected_language = Str (js ''hi'')\<rparr> \<noteq> Undefined
   \<and> response_text \<lparr>response_text = Str [], detected_language = Str (js ''hi'')\<rparr> \<noteq> Null
   \<and> snd (playTextToSpeech sample_backend empty_answer (js ''http://localhost:3000/1'')
             (Resolved [0x49, 0x44, 0x33])) = []
   \<and> detected_language \<lparr>response_text = Str (js ''File an FIR.''), detected_language = Str []\<rparr>
       \<noteq> Undefined
   \<and> snd (playTextToSpeech sample_backend unlabelled_answer (js ''http://localhost:3000/1'')
             (Resolved [0x49, 0x44, 0x33]))
       = [Post (js ''http://localhost:8001/api/text-to-speech'')
            (SpeechBody (Str (js ''File an FIR.'')) (Str (js ''en''))),
          CreateObjectURL (js ''blob:http://localhost:3000/1'') [0x49, 0x44, 0x33],
          AudioPlay (js ''blob:http://localhost:3000/1''),
          ToastSuccess (js ''Playing audio response...'')]"
  by (simp add: playTextToSpeech_def empty_answer_def unlabelled_answer_def or_else_def
      sample_backend_def API_def createObjectURL_def Let_def js_def)

text \<open>
  Claim C6, amended. \<open>playTextToSpeech\<close> makes no request and starts no playback
  when there is no query or \<open>query.response_text\<close> is falsy (absent, null or the
  empty string); otherwise it posts exactly \<open>{text: query.response_text, language}\<close>
  to \<open>/api/text-to-speech\<close>, where the language is \<open>query.detected_language\<close>, or
  \<open>en\<close> when that is falsy (absent, null or empty). When the request succeeds it
  plays the bytes of the reply through an object URL and nothing else; when the
  request fails it plays nothing.
\<close>

theorem playTextToSpeech_posts_iff_text:
  "((query st = None \<or> (\<exists>q. query st = Some q \<and> \<not> truthy (response_text q)))
      \<longrightarrow> playTextToSpeech backend st ident reply = (st, []))
   \<and> (query st = Some q \<and> truthy (response_text q) \<and> reply = Rejected \<longrightarrow>
        snd (playTextToSpeech backend st ident reply) =
          [Post (API backend @ js ''/text-to-speech'')
             (SpeechBody (response_text q)
                (if truthy (detected_language q) then detected_language q else Str (js ''en''))),
           ConsoleError (js ''Error generating speech:''),
           ToastError (js ''Failed to generate audio. Please try again.'')])
   \<and> (query st = Some q \<and> truthy (response_text q) \<and> reply = Resolved bytes \<longrightarrow>
        snd (playTextToSpeech backend st ident reply) =
          [Post (API backend @ js ''/text-to-speech'')
             (SpeechBody (response_text q)
                (if truthy (detected_language q) then detected_language q else Str (js ''en''))),
           CreateObjectURL (createObjectURL ident) bytes]
          @ (case audioRef st of None \<Rightarrow> [] | Some old \<Rightarrow> [AudioPause old])
          @ [AudioPlay (createObjectURL ident), ToastSuccess (js ''Playing audio response...'')])"
  by (auto simp: playTextToSpeech_def Let_def or_else_def split: option.splits)

theorem playTextToSpeech_posts_iff_text_witness:
  "query sample_answer
     = Some \<lparr>response_text = Str (js ''File an FIR at the police station.''),
             detected_language = Undefined\<rparr>
   \<and> truthy (Str (js ''File an FIR at the police station.''))
   \<and> snd (playTextToSpeech sample_backend sample_answer (js ''http://localhost:3000/1'')
            (Resolved [0x49, 0x44, 0x33])) =
        [Post (js ''http://localhost:8001/api/text-to-speech'')
           (SpeechBody (Str (js ''File an FIR at the police station.'')) (Str (js ''en''))),
         CreateObjectURL (js ''blob:http://localhost:3000/1'') [0x49, 0x44, 0x33],
         AudioPlay (js ''blob:http://localhost:3000/1''),
         ToastSuccess (js ''Playing audio response...'')]
   \<and> playTextToSpeech sample_backend empty_answer (js ''http://localhost:3000/1'') Rejected
       = (empty_answer, [])"
proof -
  have q: "query sample_answer
     = Some \<lparr>response_text = Str (js ''File an FIR at the police station.''),
             detected_language = Undefined\<rparr>"
    by (simp add: sample_answer_def)
  have e: "\<exists>q. query empty_answer = Some q \<and> \<not> truthy (response_text q)"
    by (simp add: empty_answer_def)
  show ?thesis
    using q e
      playTextToSpeech_posts_iff_text[where st = sample_answer
        and q = "\<lparr>response_text = Str (js ''File an FIR at the police station.''),
                  detected_language = Undefined\<rparr>"
        and reply = "Resolved [0x49, 0x44, 0x33]" and backend = sample_backend
        and ident = "js ''http://localhost:3000/1''" and bytes = "[0x49, 0x44, 0x33]"]
      playTextToSpeech_posts_iff_text[where st = empty_answer and reply = Rejected
        and backend = sample_backend and ident = "js ''http://localhost:3000/1''"]
    by (simp add: sample_answer_def API_def sample_backend_def createObjectURL_def js_def)
qed

text \<open>
  The audio element of \<open>AudioPlayer\<close> takes a plain URL of the backend as its
  \<open>src\<close>, not a blob URL.
\<close>

theorem AudioPlayer_src_counterexample:
  "AudioPlayer_src (js ''http://localhost:8001'') (Str (js ''a1''))
     = Some (js ''http://localhost:8001/api/audio/a1'')
   \<and> \<not> is_blob_url (js ''http://localhost:8001/api/audio/a1'')"
  by (simp add: AudioPlayer_src_def is_blob_url_def js_def)

text \<open>
  Claim C7, amended. Speech is played through a standard audio element whose source
  is a blob URL that the client creates, with \<open>URL.createObjectURL\<close>, from the bytes
  of the server's reply: this holds for \<open>playTextToSpeech\<close> on the response page and
  for both speech paths of the query page. The audio element of \<open>AudioPlayer\<close> is
  different: its \<open>src\<close> is the backend URL \<open>BACKEND_URL/api/audio/<audioId>\<close> itself,
  which is a blob URL only if \<open>BACKEND_URL\<close> is one.
\<close>

theorem audio_sources:
  "(\<forall>url. AudioPlay url \<in> set (snd (playTextToSpeech backend st ident reply)) \<longrightarrow>
       is_blob_url url
       \<and> (\<exists>bytes. reply = Resolved bytes
             \<and> CreateObjectURL url bytes \<in> set (snd (playTextToSpeech backend st ident reply))))
   \<and> (\<forall>url. AudioPlay url \<in> set (snd (speech_settle pg ident reply)) \<longrightarrow>
       is_blob_url url
       \<and> (\<exists>bytes. reply = Resolved bytes
             \<and> CreateObjectURL url bytes \<in> set (snd (speech_settle pg ident reply))))
   \<and> (\<forall>src. AudioPlayer_src backend audioId = Some src \<longrightarrow>
         src = backend @ js ''/api/audio/'' @ toString audioId
         \<and> (is_blob_url src \<longleftrightarrow> is_blob_url backend))"
proof (intro conjI allI impI)
  fix url
  assume "AudioPlay url \<in> set (snd (playTextToSpeech backend st ident reply))"
  then have u: "url = createObjectURL ident"
    and c: "\<exists>bytes. reply = Resolved bytes
          \<and> CreateObjectURL url bytes \<in> set (snd (playTextToSpeech backend st ident reply))"
    by (auto simp: playTextToSpeech_def Let_def split: option.splits if_splits promise.splits)
  from u show "is_blob_url url" by (simp add: is_blob_url_createObjectURL)
  from c show "\<exists>bytes. reply = Resolved bytes
          \<and> CreateObjectURL url bytes \<in> set (snd (playTextToSpeech backend st ident reply))" .
next
  fix url
  assume "AudioPlay url \<in> set (snd (speech_settle pg ident reply))"
  then have u: "url = createObjectURL ident"
    and c: "\<exists>bytes. reply = Resolved bytes
          \<and> CreateObjectURL url bytes \<in> set (snd (speech_settle pg ident reply))"
    by (auto simp: speech_settle_def Let_def split: promise.splits)
  from u show "is_blob_url url" by (simp add: is_blob_url_createObjectURL)
  from c show "\<exists>bytes. reply = Resolved bytes
          \<and> CreateObjectURL url bytes \<in> set (snd (speech_settle pg ident reply))" .
next
  fix src
  assume "AudioPlayer_src backend audioId = Some src"
  then show s: "src = backend @ js ''/api/audio/'' @ toString audioId"
    by (auto simp: AudioPlayer_src_def split: if_splits)
  show "is_blob_url src \<longleftrightarrow> is_blob_url backend"
    unfolding s by (rule is_blob_url_audio_path)
qed

theorem audio_sources_witness:
  "AudioPlay (js ''blob:http://localhost:3000/1'')
     \<in> set (snd (playTextToSpeech sample_backend sample_answer (js ''http://localhost:3000/1'')
                   (Resolved [0x49, 0x44, 0x33])))
   \<and> AudioPlay (js ''blob:http://localhost:3000/1'')
     \<in> set (snd (speech_settle initial_query_page (js ''http://localhost:3000/1'')
                   (Resolved [0x49, 0x44, 0x33])))
   \<and> is_blob_url (js ''blob:http://localhost:3000/1'')
   \<and> AudioPlayer_src sample_backend (Str (js ''a1'')) = Some (js ''http://localhost:8001/api/audio/a1'')
   \<and> \<not> is_blob_url (js ''http://localhost:8001/api/audio/a1'')"
proof -
  have a: "AudioPlay (js ''blob:http://localhost:3000/1'')
     \<in> set (snd (playTextToSpeech sample_backend sample_answer (js ''http://localhost:3000/1'')
                   (Resolved [0x49, 0x44, 0x33])))"
    by (simp add: playTextToSpeech_def sample_answer_def createObjectURL_def Let_def js_def)
  have b: "AudioPlay (js ''blob:http://localhost:3000/1'')
     \<in> set (snd (speech_settle initial_query_page (js ''http://localhost:3000/1'')
                   (Resolved [0x49, 0x44, 0x33])))"
    by (simp add: speech_settle_def createObjectURL_def Let_def js_def)
  have c: "AudioPlayer_src sample_backend (Str (js ''a1''))
     = Some (js ''http://localhost:8001/api/audio/a1'')"
    by (simp add: AudioPlayer_src_def sample_backend_def js_def)
  have d: "\<not> is_blob_url sample_backend"
    by (simp add: is_blob_url_def sample_backend_def js_def)
  from audio_sources[where backend = sample_backend and st = sample_answer
      and ident = "js ''http://localhost:3000/1''" and reply = "Resolved [0x49, 0x44, 0x33]"
      and pg = initial_query_page and audioId = "Str (js ''a1'')"] a b c d
  show ?thesis by blast
qed

end
